theory Spec2Isabelle
  imports Main
begin

section \<open>JavaScript values and operators used by \<open>src/api/index.js\<close>\<close>

text \<open>
  Strings are byte strings: a query or a text node is represented by its UTF-8 bytes.
  A value that may be \<open>undefined\<close> or \<open>null\<close> is an \<open>option\<close>; a thrown
  \<open>Error\<close> is a value of \<open>js_error\<close> carrying its \<open>message\<close>.
\<close>

datatype js_error = Error (message: string)

definition is_space :: "char \<Rightarrow> bool" where
  \<comment> \<open>the white space and line terminators that \<open>String.prototype.trim\<close> strips, below 0x80\<close>
  "is_space c = (c \<in> set [CHR 0x09, CHR 0x0A, CHR 0x0B, CHR 0x0C, CHR 0x0D, CHR 0x20])"

definition trim :: "string \<Rightarrow> string" where
  "trim s = rev (dropWhile is_space (rev (dropWhile is_space s)))"

definition truthy :: "string option \<Rightarrow> bool" where
  \<comment> \<open>\<open>undefined\<close>, \<open>null\<close> and the empty string are falsy\<close>
  "truthy v = (case v of None \<Rightarrow> False | Some s \<Rightarrow> s \<noteq> [])"

definition or_empty :: "string option \<Rightarrow> string" where
  \<comment> \<open>\<open>v || ""\<close>\<close>
  "or_empty v = (if truthy v then the v else [])"

definition or_null :: "string option \<Rightarrow> string option" where
  \<comment> \<open>\<open>v || null\<close>\<close>
  "or_null v = (if truthy v then v else None)"

definition num_or_null :: "nat \<Rightarrow> nat option" where
  \<comment> \<open>\<open>n || null\<close> on a number: 0 is falsy\<close>
  "num_or_null n = (if n \<noteq> 0 then Some n else None)"

definition hex_digit :: "nat \<Rightarrow> char" where
  "hex_digit n = ''0123456789ABCDEF'' ! (n mod 16)"

definition unreserved :: "char \<Rightarrow> bool" where
  \<comment> \<open>the characters \<open>encodeURIComponent\<close> leaves alone\<close>
  "unreserved c =
     (let n = (of_char c :: nat) in
        (65 \<le> n \<and> n \<le> 90) \<or> (97 \<le> n \<and> n \<le> 122) \<or> (48 \<le> n \<and> n \<le> 57)
        \<or> c \<in> set ''-_.!~*'()'')"

definition encodeURIComponent :: "string \<Rightarrow> string" where
  "encodeURIComponent s =
     concat (map (\<lambda>c. if unreserved c then [c]
                       else [CHR ''%'', hex_digit (of_char c div 16), hex_digit (of_char c mod 16)]) s)"

subsection \<open>The rendered document\<close>

text \<open>
  A DOM element is modelled at the interface the scripts use: the properties they read,
  and for each selector string the answer of \<open>querySelector\<close> (first match),
  \<open>querySelectorAll\<close> (all matches, in document order) and \<open>closest\<close>.
  The document itself is an element.
\<close>

datatype element = Element
  (textContent: string)
  (href: string)
  (src: string)
  (alt: string)
  (input_value: string)
  (naturalWidth: nat)
  (naturalHeight: nat)
  (first_match: "(string \<times> element) list")
  (all_matches: "(string \<times> element list) list")
  (closest_match: "(string \<times> element) list")

definition querySelector :: "element \<Rightarrow> string \<Rightarrow> element option" where
  "querySelector e sel = map_of (first_match e) sel"

definition querySelectorAll :: "element \<Rightarrow> string \<Rightarrow> element list" where
  "querySelectorAll e sel = (case map_of (all_matches e) sel of None \<Rightarrow> [] | Some es \<Rightarrow> es)"

definition closest :: "element \<Rightarrow> string \<Rightarrow> element option" where
  "closest e sel = map_of (closest_match e) sel"

definition text_of :: "element option \<Rightarrow> string option" where
  \<comment> \<open>\<open>el?.textContent.trim()\<close>\<close>
  "text_of el = map_option (\<lambda>e. trim (textContent e)) el"

definition href_of :: "element option \<Rightarrow> string option" where
  \<comment> \<open>\<open>el?.href\<close>\<close>
  "href_of el = map_option href el"

definition src_of :: "element option \<Rightarrow> string option" where
  \<comment> \<open>\<open>el?.src\<close>\<close>
  "src_of el = map_option src el"

definition forEach :: "'a list \<Rightarrow> ('a \<Rightarrow> 's \<Rightarrow> 's) \<Rightarrow> 's \<Rightarrow> 's" where
  \<comment> \<open>\<open>xs.forEach(f)\<close>, the callback updating the state it closes over\<close>
  "forEach xs f s = fold f xs s"

definition forEach_index :: "'a list \<Rightarrow> ('a \<Rightarrow> nat \<Rightarrow> 's \<Rightarrow> 's) \<Rightarrow> 's \<Rightarrow> 's" where
  \<comment> \<open>\<open>xs.forEach((x, index) => ...)\<close>\<close>
  "forEach_index xs f s = fold (\<lambda>(i, x). f x i) (enumerate 0 xs) s"

definition query_box :: "element \<Rightarrow> string" where
  \<comment> \<open>\<open>document.querySelector('input[name="q"]')?.value || ""\<close>\<close>
  \<open>query_box document =
     or_empty (map_option input_value (querySelector document ''input[name="q"]''))\<close>

section \<open>Web search: the extraction pass of \<open>scrapeGoogleSearch\<close>\<close>

record organic_result =
  o_title :: string
  o_url :: string
  o_displayUrl :: string
  o_snippet :: string
  o_favicon :: "string option"

record featured_snippet =
  fs_title :: string
  fs_text :: string
  fs_url :: string

record fact =
  f_label :: string
  f_value :: string

record knowledge_panel =
  kp_title :: string
  kp_subtitle :: string
  kp_description :: string
  kp_image :: "string option"
  kp_facts :: "fact list"

record related_search =
  rs_text :: string
  rs_url :: string

record inline_image =
  ii_src :: string
  ii_alt :: string
  ii_width :: "nat option"
  ii_height :: "nat option"

record inline_video =
  iv_title :: string
  iv_url :: string
  iv_thumbnail :: "string option"
  iv_duration :: "string option"
  iv_source :: string

record inline_news =
  in_title :: string
  in_url :: string
  in_source :: string
  in_time :: string
  in_snippet :: string

record site_link =
  sl_title :: string
  sl_url :: string
  sl_snippet :: string

record search_results =
  sr_query :: string
  searchInfo :: "string option"  \<comment> \<open>the \<open>text\<close> property of \<open>searchInfo\<close>, when set\<close>
  organicResults :: "organic_result list"
  featuredSnippet :: "featured_snippet option"
  knowledgePanel :: "knowledge_panel option"
  peopleAlsoAsk :: "string list"  \<comment> \<open>each entry is \<open>{question}\<close>\<close>
  relatedSearches :: "related_search list"
  images :: "inline_image list"
  videos :: "inline_video list"
  news :: "inline_news list"
  siteLinks :: "site_link list"

definition organic_item :: "element \<Rightarrow> organic_result option" where
  \<comment> \<open>the object pushed for one result block, if any: the test is on the two elements\<close>
  "organic_item element =
     (let titleElement = querySelector element ''h3'';
          linkElement = querySelector element ''a'';
          snippetElement = querySelector element ''.VwiC3b, .yXK7lf, .s'';
          faviconElement = querySelector element ''img[src*='favicon']''
      in case (titleElement, linkElement) of
           (Some titleElement, Some linkElement) \<Rightarrow>
             Some \<lparr>o_title = trim (textContent titleElement),
                   o_url = href linkElement,
                   o_displayUrl = or_empty (text_of (querySelector element ''cite'')),
                   o_snippet = or_empty (text_of snippetElement),
                   o_favicon = or_null (src_of faviconElement)\<rparr>
         | _ \<Rightarrow> None)"

definition organic_step :: "element \<Rightarrow> search_results \<Rightarrow> search_results" where
  "organic_step element results =
     (case organic_item element of
        Some entry \<Rightarrow> results\<lparr>organicResults := organicResults results @ [entry]\<rparr>
      | None \<Rightarrow> results)"

definition featured_step :: "element \<Rightarrow> search_results \<Rightarrow> search_results" where
  "featured_step document results =
     (case querySelector document ''.xpdopen, .kp-blk, .IZ6rdc'' of
        Some featuredSnippetElement \<Rightarrow>
          results\<lparr>featuredSnippet := Some
            \<lparr>fs_title = or_empty (text_of (querySelector featuredSnippetElement ''h3, .LC20lb'')),
             fs_text = or_empty (text_of (querySelector featuredSnippetElement ''.hgKElc, .X5LH0c'')),
             fs_url = or_empty (href_of (querySelector featuredSnippetElement ''a''))\<rparr>\<rparr>
      | None \<Rightarrow> results)"

definition fact_item :: "element \<Rightarrow> fact option" where
  "fact_item fct =
     (let label = text_of (querySelector fct ''.w8qArf'');
          val = text_of (querySelector fct ''.kno-fv'')
      in if truthy label \<and> truthy val
         then Some \<lparr>f_label = the label, f_value = the val\<rparr>
         else None)"

definition fact_step :: "element \<Rightarrow> knowledge_panel \<Rightarrow> knowledge_panel" where
  "fact_step fct panel =
     (case fact_item fct of
        Some entry \<Rightarrow> panel\<lparr>kp_facts := kp_facts panel @ [entry]\<rparr>
      | None \<Rightarrow> panel)"

definition knowledge_step :: "element \<Rightarrow> search_results \<Rightarrow> search_results" where
  "knowledge_step document results =
     (case querySelector document ''.kp-wholepage, .knowledge-panel'' of
        Some knowledgePanelElement \<Rightarrow>
          (let panel =
             \<lparr>kp_title = or_empty (text_of (querySelector knowledgePanelElement ''.qrShPb, h2'')),
              kp_subtitle = or_empty (text_of (querySelector knowledgePanelElement ''.wwUB2c'')),
              kp_description =
                or_empty (text_of (querySelector knowledgePanelElement ''.kno-rdesc span'')),
              kp_image =
                or_null (src_of (querySelector knowledgePanelElement ''g-img img, .kno-ibrg img'')),
              kp_facts = []\<rparr>
           in results\<lparr>knowledgePanel := Some
                (forEach (querySelectorAll knowledgePanelElement ''.rVusze, .wDYxhc'')
                   fact_step panel)\<rparr>)
      | None \<Rightarrow> results)"

definition paa_item :: "element \<Rightarrow> string option" where
  "paa_item element =
     (let question = text_of (querySelector element ''.CSkcDe, span'')
      in if truthy question then Some (the question) else None)"

definition paa_step :: "element \<Rightarrow> search_results \<Rightarrow> search_results" where
  "paa_step element results =
     (case paa_item element of
        Some entry \<Rightarrow> results\<lparr>peopleAlsoAsk := peopleAlsoAsk results @ [entry]\<rparr>
      | None \<Rightarrow> results)"

definition related_item :: "element \<Rightarrow> related_search option" where
  "related_item element =
     (let text = Some (trim (textContent element));
          link = href_of (closest element ''a'')
      in if truthy text \<and> truthy link
         then Some \<lparr>rs_text = the text, rs_url = the link\<rparr>
         else None)"

definition related_step :: "element \<Rightarrow> search_results \<Rightarrow> search_results" where
  "related_step element results =
     (case related_item element of
        Some entry \<Rightarrow> results\<lparr>relatedSearches := relatedSearches results @ [entry]\<rparr>
      | None \<Rightarrow> results)"

definition inline_image_entry :: "element \<Rightarrow> inline_image" where
  "inline_image_entry img =
     \<lparr>ii_src = src img,
      ii_alt = or_empty (Some (alt img)),
      ii_width = num_or_null (naturalWidth img),
      ii_height = num_or_null (naturalHeight img)\<rparr>"

definition image_step :: "element \<Rightarrow> nat \<Rightarrow> search_results \<Rightarrow> search_results" where
  \<comment> \<open>limit to the first 20 images\<close>
  "image_step img index results =
     (if index < 20
      then results\<lparr>images := images results @ [inline_image_entry img]\<rparr>
      else results)"

definition video_item :: "element \<Rightarrow> inline_video option" where
  "video_item element =
     (let title = text_of (querySelector element ''h3'');
          link = href_of (querySelector element ''a'');
          thumbnail = src_of (querySelector element ''img'');
          duration = text_of (querySelector element ''.J1mWY'');
          source = text_of (querySelector element ''.Zg1NU'')
      in if truthy title \<and> truthy link
         then Some \<lparr>iv_title = the title, iv_url = the link, iv_thumbnail = or_null thumbnail,
                    iv_duration = or_null duration, iv_source = or_empty source\<rparr>
         else None)"

definition video_step :: "element \<Rightarrow> search_results \<Rightarrow> search_results" where
  "video_step element results =
     (case video_item element of
        Some entry \<Rightarrow> results\<lparr>videos := videos results @ [entry]\<rparr>
      | None \<Rightarrow> results)"

definition news_item :: "element \<Rightarrow> inline_news option" where
  "news_item element =
     (let title = text_of (querySelector element ''.mCBkyc, .n0jPhd'');
          link = href_of (querySelector element ''a'');
          source = text_of (querySelector element ''.NUnG9d span, .CEMjEf'');
          time = text_of (querySelector element ''.OSrXXb, .WG9SHc span'');
          snippet = text_of (querySelector element ''.GI74Re, .Y3v8qd'')
      in if truthy title \<and> truthy link
         then Some \<lparr>in_title = the title, in_url = the link, in_source = or_empty source,
                    in_time = or_empty time, in_snippet = or_empty snippet\<rparr>
         else None)"

definition news_step :: "element \<Rightarrow> search_results \<Rightarrow> search_results" where
  "news_step element results =
     (case news_item element of
        Some entry \<Rightarrow> results\<lparr>news := news results @ [entry]\<rparr>
      | None \<Rightarrow> results)"

definition sitelink_item :: "element \<Rightarrow> site_link option" where
  "sitelink_item element =
     (let title = text_of (querySelector element ''h3'');
          link = href_of (querySelector element ''a'');
          snippet = text_of (querySelector element ''.s'')
      in if truthy title \<and> truthy link
         then Some \<lparr>sl_title = the title, sl_url = the link, sl_snippet = or_empty snippet\<rparr>
         else None)"

definition sitelink_step :: "element \<Rightarrow> search_results \<Rightarrow> search_results" where
  "sitelink_step element results =
     (case sitelink_item element of
        Some entry \<Rightarrow> results\<lparr>siteLinks := siteLinks results @ [entry]\<rparr>
      | None \<Rightarrow> results)"

definition search_script :: "element \<Rightarrow> search_results" where
  \<comment> \<open>the function passed to \<open>page.evaluate\<close> in \<open>scrapeGoogleSearch\<close>\<close>
  "search_script document =
     (let results =
            \<lparr>sr_query = query_box document, searchInfo = None, organicResults = [],
             featuredSnippet = None, knowledgePanel = None, peopleAlsoAsk = [],
             relatedSearches = [], images = [], videos = [], news = [], siteLinks = []\<rparr>;
          results = (case querySelector document ''#result-stats'' of
                       Some searchStats \<Rightarrow>
                         results\<lparr>searchInfo := Some (trim (textContent searchStats))\<rparr>
                     | None \<Rightarrow> results);
          results = forEach (querySelectorAll document ''.g, .Gx5Zad'') organic_step results;
          results = featured_step document results;
          results = knowledge_step document results;
          results = forEach (querySelectorAll document ''.related-question-pair, .JolIg'')
                      paa_step results;
          results = forEach (querySelectorAll document ''.k8XOCe, .s75CSd'') related_step results;
          results = forEach_index (querySelectorAll document ''g-img img, .ivg-i img'')
                      image_step results;
          results = forEach (querySelectorAll document ''.RzdJxc, .VibNM'') video_step results;
          results = forEach (querySelectorAll document ''.SoaBEf, .WlydOe'') news_step results;
          results = forEach (querySelectorAll document ''.usJj9c'') sitelink_step results
      in results)"

section \<open>Image, video and news search: the extraction passes\<close>

record image_entry =
  im_src :: string
  im_thumbnail :: string
  im_alt :: string
  im_width :: nat
  im_height :: nat
  im_link :: string

record images_data =
  img_query :: string
  totalImages :: nat
  img_images :: "image_entry list"

definition image_entry_of :: "element \<Rightarrow> image_entry" where
  "image_entry_of img =
     (let container = closest img ''a''
      in \<lparr>im_src = src img, im_thumbnail = src img, im_alt = or_empty (Some (alt img)),
          im_width = naturalWidth img, im_height = naturalHeight img,
          im_link = or_empty (href_of container)\<rparr>)"

definition images_push :: "element \<Rightarrow> image_entry list \<Rightarrow> image_entry list" where
  \<comment> \<open>the \<open>forEach\<close> callback: small images (icons, UI elements) are filtered out\<close>
  "images_push img imgs =
     (if naturalWidth img > 100 \<and> naturalHeight img > 100
      then imgs @ [image_entry_of img]
      else imgs)"

definition images_script :: "element \<Rightarrow> images_data" where
  \<comment> \<open>the second function passed to \<open>page.evaluate\<close> in \<open>scrapeGoogleImages\<close>;
      \<open>images.slice(0, 50)\<close> is \<open>take 50\<close>\<close>
  "images_script document =
     (let imgs = forEach (querySelectorAll document ''img'') images_push []
      in \<lparr>img_query = query_box document,
          totalImages = length imgs,
          img_images = take 50 imgs\<rparr>)"

record video_entry =
  v_title :: string
  v_url :: string
  v_thumbnail :: "string option"
  v_source :: string
  v_duration :: "string option"
  v_uploadDate :: string
  v_description :: string

record videos_data =
  vid_query :: string
  totalVideos :: nat
  vid_videos :: "video_entry list"

definition videos_item :: "element \<Rightarrow> video_entry option" where
  "videos_item element =
     (let title = text_of (querySelector element ''h3'');
          link = href_of (querySelector element ''a'');
          thumbnail = src_of (querySelector element ''img'');
          source = text_of (querySelector element ''.UPmit'');
          duration = text_of (querySelector element ''.J1mWY'');
          uploadDate = text_of (querySelector element ''.P7xzyf'');
          description = text_of (querySelector element ''.VwiC3b'')
      in if truthy title \<and> truthy link
         then Some \<lparr>v_title = the title, v_url = the link, v_thumbnail = or_null thumbnail,
                    v_source = or_empty source, v_duration = or_null duration,
                    v_uploadDate = or_empty uploadDate, v_description = or_empty description\<rparr>
         else None)"

definition videos_push :: "element \<Rightarrow> video_entry list \<Rightarrow> video_entry list" where
  "videos_push element vids =
     (case videos_item element of Some entry \<Rightarrow> vids @ [entry] | None \<Rightarrow> vids)"

definition videos_script :: "element \<Rightarrow> videos_data" where
  "videos_script document =
     (let vids = forEach (querySelectorAll document ''.g'') videos_push []
      in \<lparr>vid_query = query_box document,
          totalVideos = length vids,
          vid_videos = vids\<rparr>)"

record article =
  a_title :: string
  a_url :: string
  a_source :: string
  a_publishedTime :: string
  a_snippet :: string
  a_thumbnail :: "string option"

record news_data =
  nws_query :: string
  totalArticles :: nat
  articles :: "article list"

definition articles_item :: "element \<Rightarrow> article option" where
  "articles_item element =
     (let title = text_of (querySelector element ''.mCBkyc, .n0jPhd, h3'');
          link = href_of (querySelector element ''a'');
          source = text_of (querySelector element ''.NUnG9d span, .CEMjEf, cite'');
          time = text_of (querySelector element ''.OSrXXb, .WG9SHc span, .f'');
          snippet = text_of (querySelector element ''.GI74Re, .Y3v8qd, .st'');
          thumbnail = src_of (querySelector element ''img'')
      in if truthy title \<and> truthy link
         then Some \<lparr>a_title = the title, a_url = the link, a_source = or_empty source,
                    a_publishedTime = or_empty time, a_snippet = or_empty snippet,
                    a_thumbnail = or_null thumbnail\<rparr>
         else None)"

definition articles_push :: "element \<Rightarrow> article list \<Rightarrow> article list" where
  "articles_push element arts =
     (case articles_item element of Some entry \<Rightarrow> arts @ [entry] | None \<Rightarrow> arts)"

definition news_script :: "element \<Rightarrow> news_data" where
  "news_script document =
     (let arts = forEach (querySelectorAll document ''.SoaBEf, .WlydOe, .Gx5Zad'') articles_push []
      in \<lparr>nws_query = query_box document,
          totalArticles = length arts,
          articles = arts\<rparr>)"

section \<open>The browser session: calls, failures and the trace of what was done\<close>

text \<open>
  Every call into the browser library is an event. The library is outside the program:
  a \<open>world\<close> says, for each call and the history before it, whether the call rejects,
  which document the page shows, and what the clock reads. An asynchronous function is a
  \<open>proc\<close>: it extends the trace and either throws or returns.
\<close>

datatype event =
    Launch
  | NewPage
  | SetUserAgent string
  | Goto string string nat  \<comment> \<open>url, \<open>waitUntil\<close>, \<open>timeout\<close> in ms\<close>
  | WaitForSelector string nat  \<comment> \<open>selector, \<open>timeout\<close> in ms\<close>
  | Evaluate
  | ScrollBy  \<comment> \<open>\<open>window.scrollBy(0, window.innerHeight)\<close>, in the page\<close>
  | Sleep nat  \<comment> \<open>\<open>setTimeout\<close> awaited in the page, in ms\<close>
  | Close

record world =
  rejects :: "event list \<Rightarrow> event \<Rightarrow> js_error option"
  page_document :: element
  now :: string  \<comment> \<open>\<open>new Date().toISOString()\<close>\<close>

type_synonym 'a proc = "event list \<Rightarrow> (js_error + 'a) \<times> event list"

definition return :: "'a \<Rightarrow> 'a proc" where
  "return a = (\<lambda>tr. (Inr a, tr))"

definition throw :: "js_error \<Rightarrow> 'a proc" where
  "throw e = (\<lambda>tr. (Inl e, tr))"

definition await :: "'a proc \<Rightarrow> ('a \<Rightarrow> 'b proc) \<Rightarrow> 'b proc" where
  \<comment> \<open>\<open>const x = await m; rest\<close>: a rejection of \<open>m\<close> skips the rest\<close>
  "await m rest = (\<lambda>tr. case m tr of (Inl e, tr') \<Rightarrow> (Inl e, tr') | (Inr a, tr') \<Rightarrow> rest a tr')"

definition try_catch :: "'a proc \<Rightarrow> (js_error \<Rightarrow> 'a proc) \<Rightarrow> 'a proc" where
  "try_catch body handler =
     (\<lambda>tr. case body tr of (Inl e, tr') \<Rightarrow> handler e tr' | (Inr a, tr') \<Rightarrow> (Inr a, tr'))"

definition call :: "world \<Rightarrow> event \<Rightarrow> unit proc" where
  \<comment> \<open>one call into the browser library\<close>
  "call w ev = (\<lambda>tr. (case rejects w tr ev of Some e \<Rightarrow> Inl e | None \<Rightarrow> Inr (), tr @ [ev]))"

definition in_page :: "event list \<Rightarrow> unit proc" where
  \<comment> \<open>what a script does inside the page\<close>
  "in_page evs = (\<lambda>tr. (Inr (), tr @ evs))"

definition userAgent :: string where
  "userAgent = ''Mozilla/5.0 (Windows NT 10.0; Win64; x64) AppleWebKit/537.36 (KHTML, like Gecko) Chrome/120.0.0.0 Safari/537.36''"

function scroll_loop :: "nat \<Rightarrow> event list" where
  \<comment> \<open>\<open>for (let i = 0; i < 3; i++) { window.scrollBy(...); await new Promise(... 1000) }\<close>\<close>
  "scroll_loop i = (if i < 3 then [ScrollBy, Sleep 1000] @ scroll_loop (i + 1) else [])"
  by pat_completeness auto
termination
  by (relation "measure (\<lambda>i. 3 - i)") auto

declare scroll_loop.simps [simp del]

section \<open>The four scraping functions\<close>

record 'd envelope =
  success :: bool
  timestamp :: string
  data :: 'd

definition evaluate :: "world \<Rightarrow> (element \<Rightarrow> 'a) \<Rightarrow> 'a proc" where
  \<comment> \<open>\<open>page.evaluate(script)\<close>: the script runs on the document the page shows\<close>
  "evaluate w script = await (call w Evaluate) (\<lambda>_. return (script (page_document w)))"

definition evaluate_scroll :: "world \<Rightarrow> unit proc" where
  \<comment> \<open>\<open>page.evaluate\<close> of the scrolling script of \<open>scrapeGoogleImages\<close>; the scrolls
      and waits inside the page are recorded when the call resolves\<close>
  "evaluate_scroll w = await (call w Evaluate) (\<lambda>_. in_page (scroll_loop 0))"

definition scrapeGoogleSearch :: "string \<Rightarrow> world \<Rightarrow> search_results envelope proc" where
  "scrapeGoogleSearch query w =
     await (call w Launch) (\<lambda>browser.
     await (call w NewPage) (\<lambda>page.
     try_catch
       (await (call w (SetUserAgent userAgent)) (\<lambda>_.
        await (call w (Goto (''https://www.google.com/search?q='' @ encodeURIComponent query
                               @ ''&hl=en'') ''networkidle0'' 30000)) (\<lambda>_.
        await (call w (WaitForSelector ''#search'' 10000)) (\<lambda>_.
        await (evaluate w search_script) (\<lambda>dat.
        await (call w Close) (\<lambda>_.
        return \<lparr>success = True, timestamp = now w, data = dat\<rparr>))))))
       (\<lambda>error. await (call w Close) (\<lambda>_. throw error))))"

definition scrapeGoogleImages :: "string \<Rightarrow> world \<Rightarrow> images_data envelope proc" where
  "scrapeGoogleImages query w =
     await (call w Launch) (\<lambda>browser.
     await (call w NewPage) (\<lambda>page.
     try_catch
       (await (call w (SetUserAgent userAgent)) (\<lambda>_.
        await (call w (Goto (''https://www.google.com/search?q='' @ encodeURIComponent query
                               @ ''&tbm=isch&hl=en'') ''networkidle0'' 30000)) (\<lambda>_.
        await (evaluate_scroll w) (\<lambda>_.
        await (evaluate w images_script) (\<lambda>dat.
        await (call w Close) (\<lambda>_.
        return \<lparr>success = True, timestamp = now w, data = dat\<rparr>))))))
       (\<lambda>error. await (call w Close) (\<lambda>_. throw error))))"

definition scrapeGoogleVideos :: "string \<Rightarrow> world \<Rightarrow> videos_data envelope proc" where
  "scrapeGoogleVideos query w =
     await (call w Launch) (\<lambda>browser.
     await (call w NewPage) (\<lambda>page.
     try_catch
       (await (call w (SetUserAgent userAgent)) (\<lambda>_.
        await (call w (Goto (''https://www.google.com/search?q='' @ encodeURIComponent query
                               @ ''&tbm=vid&hl=en'') ''networkidle0'' 30000)) (\<lambda>_.
        await (call w (WaitForSelector ''.g'' 10000)) (\<lambda>_.
        await (evaluate w videos_script) (\<lambda>dat.
        await (call w Close) (\<lambda>_.
        return \<lparr>success = True, timestamp = now w, data = dat\<rparr>))))))
       (\<lambda>error. await (call w Close) (\<lambda>_. throw error))))"

definition scrapeGoogleNews :: "string \<Rightarrow> world \<Rightarrow> news_data envelope proc" where
  "scrapeGoogleNews query w =
     await (call w Launch) (\<lambda>browser.
     await (call w NewPage) (\<lambda>page.
     try_catch
       (await (call w (SetUserAgent userAgent)) (\<lambda>_.
        await (call w (Goto (''https://www.google.com/search?q='' @ encodeURIComponent query
                               @ ''&tbm=nws&hl=en'') ''networkidle0'' 30000)) (\<lambda>_.
        await (call w (WaitForSelector ''.SoaBEf, .WlydOe'' 10000)) (\<lambda>_.
        await (evaluate w news_script) (\<lambda>dat.
        await (call w Close) (\<lambda>_.
        return \<lparr>success = True, timestamp = now w, data = dat\<rparr>))))))
       (\<lambda>error. await (call w Close) (\<lambda>_. throw error))))"

section \<open>The request router: \<open>fetch\<close>\<close>

record request =
  http_method :: string  \<comment> \<open>\<open>request.method\<close>\<close>
  pathname :: string
  searchParams :: "(string \<times> string) list"

datatype body =
    NullBody
  | ErrorBody string  \<comment> \<open>\<open>{error: message}\<close>\<close>
  | HealthBody string string string "string list"
      \<comment> \<open>\<open>{status, service, version, endpoints}\<close>\<close>
  | SearchBody "search_results envelope"
  | ImagesBody "images_data envelope"
  | VideosBody "videos_data envelope"
  | NewsBody "news_data envelope"

record response =
  status :: nat
  headers :: "(string \<times> string) list"
  body :: body

definition searchParams_get :: "request \<Rightarrow> string \<Rightarrow> string option" where
  \<comment> \<open>\<open>url.searchParams.get(name)\<close>: the first value for the name, or \<open>null\<close>\<close>
  "searchParams_get req name = map_of (searchParams req) name"

definition corsHeaders :: "(string \<times> string) list" where
  "corsHeaders =
     [(''Access-Control-Allow-Origin'', ''*''),
      (''Access-Control-Allow-Methods'', ''GET, POST, OPTIONS''),
      (''Access-Control-Allow-Headers'', ''Content-Type'')]"

definition jsonHeaders :: "(string \<times> string) list" where
  \<comment> \<open>\<open>{ ...corsHeaders, "Content-Type": "application/json" }\<close>\<close>
  "jsonHeaders = corsHeaders @ [(''Content-Type'', ''application/json'')]"

definition missing_q :: string where
  "missing_q = ''Missing query parameter '' @ [CHR 0x27] @ ''q'' @ [CHR 0x27]"

definition health :: body where
  "health = HealthBody ''ok'' ''Google Scraper API'' ''1.0.0''
     [''/search?q=query - Search Google and extract all data'',
      ''/images?q=query - Search Google Images'',
      ''/videos?q=query - Search Google Videos'',
      ''/news?q=query - Search Google News'',
      ''/health - Health check'']"

definition endpoint ::
  "request \<Rightarrow> (string \<Rightarrow> 'd envelope proc) \<Rightarrow> ('d envelope \<Rightarrow> body) \<Rightarrow> response proc" where
  \<comment> \<open>the body shared by the four endpoint branches of \<open>fetch\<close>: the check of \<open>q\<close>,
      then the scraper inside \<open>try\<close>/\<open>catch\<close>\<close>
  "endpoint req scraper wrap =
     (let query = searchParams_get req ''q''
      in if \<not> truthy query
         then return \<lparr>status = 400, headers = jsonHeaders, body = ErrorBody missing_q\<rparr>
         else try_catch
                (await (scraper (the query)) (\<lambda>results.
                 return \<lparr>status = 200, headers = jsonHeaders, body = wrap results\<rparr>))
                (\<lambda>error.
                 return \<lparr>status = 500, headers = jsonHeaders, body = ErrorBody (message error)\<rparr>))"

definition fetch :: "request \<Rightarrow> world \<Rightarrow> response proc" where
  "fetch req env =
     (if http_method req = ''OPTIONS''
      then return \<lparr>status = 200, headers = corsHeaders, body = NullBody\<rparr>
      else if pathname req = ''/'' \<or> pathname req = ''/health''
      then return \<lparr>status = 200, headers = jsonHeaders, body = health\<rparr>
      else if pathname req = ''/search''
      then endpoint req (\<lambda>query. scrapeGoogleSearch query env) SearchBody
      else if pathname req = ''/images''
      then endpoint req (\<lambda>query. scrapeGoogleImages query env) ImagesBody
      else if pathname req = ''/videos''
      then endpoint req (\<lambda>query. scrapeGoogleVideos query env) VideosBody
      else if pathname req = ''/news''
      then endpoint req (\<lambda>query. scrapeGoogleNews query env) NewsBody
      else return \<lparr>status = 404, headers = jsonHeaders, body = ErrorBody ''Endpoint not found''\<rparr>)"

section \<open>Sample pages, worlds and requests\<close>

definition blank :: element where
  "blank = Element [] [] [] [] [] 0 0 [] [] []"

definition quiet_world :: world where
  \<comment> \<open>no call into the browser library rejects\<close>
  "quiet_world =
     \<lparr>rejects = (\<lambda>tr ev. None), page_document = blank, now = ''2024-01-01T00:00:00.000Z''\<rparr>"

definition newpage_fails_world :: world where
  \<comment> \<open>the browser launches, \<open>browser.newPage()\<close> rejects\<close>
  "newpage_fails_world =
     \<lparr>rejects = (\<lambda>tr ev. if ev = NewPage then Some (Error ''Unable to create new page'') else None),
      page_document = blank, now = ''2024-01-01T00:00:00.000Z''\<rparr>"

definition close_fails_once_world :: world where
  \<comment> \<open>the first \<open>browser.close()\<close> rejects, a later one resolves\<close>
  "close_fails_once_world =
     \<lparr>rejects = (\<lambda>tr ev. if ev = Close \<and> count_list tr Close = 0
                           then Some (Error ''Protocol error: Connection closed'') else None),
      page_document = blank, now = ''2024-01-01T00:00:00.000Z''\<rparr>"

definition goto_fails_world :: world where
  \<comment> \<open>the navigation times out\<close>
  "goto_fails_world =
     \<lparr>rejects = (\<lambda>tr ev. case ev of
                     Goto url waitUntil t \<Rightarrow> Some (Error ''Navigation timeout of 30000 ms exceeded'')
                   | _ \<Rightarrow> None),
      page_document = blank, now = ''2024-01-01T00:00:00.000Z''\<rparr>"

definition untitled_block :: element where
  \<comment> \<open>a result block whose \<open>h3\<close> holds only white space and whose \<open>a\<close> has no \<open>href\<close>\<close>
  "untitled_block =
     Element [] [] [] [] [] 0 0
       [(''h3'', Element ''  '' [] [] [] [] 0 0 [] [] []), (''a'', blank)] [] []"

definition untitled_page :: element where
  "untitled_page = Element [] [] [] [] [] 0 0 [] [(''.g, .Gx5Zad'', [untitled_block])] []"

definition large_img :: element where
  "large_img = Element [] [] ''https://example.org/cat.jpg'' ''cat'' [] 640 480 [] [] []"

definition gallery_page :: element where
  \<comment> \<open>51 images larger than 100 x 100\<close>
  "gallery_page = Element [] [] [] [] [] 0 0 [] [(''img'', replicate 51 large_img)] []"

definition preflight_request :: request where
  "preflight_request = \<lparr>http_method = ''OPTIONS'', pathname = ''/search'', searchParams = []\<rparr>"

definition empty_q_request :: request where
  "empty_q_request = \<lparr>http_method = ''GET'', pathname = ''/images'', searchParams = [(''q'', [])]\<rparr>"

definition openai_request :: request where
  "openai_request =
     \<lparr>http_method = ''GET'', pathname = ''/search'', searchParams = [(''q'', ''openai'')]\<rparr>"

definition is_wait :: "event \<Rightarrow> bool" where
  "is_wait ev = (case ev of WaitForSelector sel t \<Rightarrow> True | _ \<Rightarrow> False)"

definition new_events :: "event list \<Rightarrow> event list \<Rightarrow> event list" where
  \<comment> \<open>the events a run added to the trace it started from\<close>
  "new_events tr tr' = drop (length tr) tr'"

section \<open>Loops with \<open>push\<close> are order-preserving selections\<close>

text \<open>
  Each \<open>forEach\<close> of the scripts appends to one list. The result is the list of the
  pushed objects of the nodes that pass the callback's test, in the order of the nodes.
\<close>

lemma forEach_images_push:
  "forEach xs images_push acc =
     acc @ map image_entry_of
             (filter (\<lambda>img. 100 < naturalWidth img \<and> 100 < naturalHeight img) xs)"
  unfolding forEach_def
  by (induction xs arbitrary: acc) (auto simp: images_push_def)

lemma forEach_videos_push:
  "forEach xs videos_push acc = acc @ List.map_filter videos_item xs"
  unfolding forEach_def
  by (induction xs arbitrary: acc) (auto simp: videos_push_def split: option.splits)

lemma forEach_articles_push:
  "forEach xs articles_push acc = acc @ List.map_filter articles_item xs"
  unfolding forEach_def
  by (induction xs arbitrary: acc) (auto simp: articles_push_def split: option.splits)

lemma forEach_organic_step:
  "forEach xs organic_step r =
     r\<lparr>organicResults := organicResults r @ List.map_filter organic_item xs\<rparr>"
  unfolding forEach_def
  by (induction xs arbitrary: r) (auto simp: organic_step_def split: option.splits)

lemma forEach_fact_step:
  "forEach xs fact_step p = p\<lparr>kp_facts := kp_facts p @ List.map_filter fact_item xs\<rparr>"
  unfolding forEach_def
  by (induction xs arbitrary: p) (auto simp: fact_step_def split: option.splits)

lemma forEach_paa_step:
  "forEach xs paa_step r =
     r\<lparr>peopleAlsoAsk := peopleAlsoAsk r @ List.map_filter paa_item xs\<rparr>"
  unfolding forEach_def
  by (induction xs arbitrary: r) (auto simp: paa_step_def split: option.splits)

lemma forEach_related_step:
  "forEach xs related_step r =
     r\<lparr>relatedSearches := relatedSearches r @ List.map_filter related_item xs\<rparr>"
  unfolding forEach_def
  by (induction xs arbitrary: r) (auto simp: related_step_def split: option.splits)

lemma forEach_video_step:
  "forEach xs video_step r = r\<lparr>videos := videos r @ List.map_filter video_item xs\<rparr>"
  unfolding forEach_def
  by (induction xs arbitrary: r) (auto simp: video_step_def split: option.splits)

lemma forEach_news_step:
  "forEach xs news_step r = r\<lparr>news := news r @ List.map_filter news_item xs\<rparr>"
  unfolding forEach_def
  by (induction xs arbitrary: r) (auto simp: news_step_def split: option.splits)

lemma forEach_sitelink_step:
  "forEach xs sitelink_step r =
     r\<lparr>siteLinks := siteLinks r @ List.map_filter sitelink_item xs\<rparr>"
  unfolding forEach_def
  by (induction xs arbitrary: r) (auto simp: sitelink_step_def split: option.splits)

text \<open>The indexed loop: from index \<open>n\<close> on, only the nodes below index 20 are pushed.\<close>

lemma fold_image_step:
  "fold (\<lambda>(i, x). image_step x i) (enumerate n xs) r =
     r\<lparr>images := images r @ map inline_image_entry (take (20 - n) xs)\<rparr>"
proof (induction xs arbitrary: n r)
  case Nil
  then show ?case by simp
next
  case (Cons x xs)
  have "fold (\<lambda>(i, x). image_step x i) (enumerate n (x # xs)) r =
        fold (\<lambda>(i, x). image_step x i) (enumerate (Suc n) xs) (image_step x n r)"
    by simp
  also have "\<dots> = (image_step x n r)\<lparr>images :=
      images (image_step x n r) @ map inline_image_entry (take (20 - Suc n) xs)\<rparr>"
    by (rule Cons.IH)
  also have "\<dots> = r\<lparr>images := images r @ map inline_image_entry (take (20 - n) (x # xs))\<rparr>"
  proof (cases "n < 20")
    case True
    then have "20 - n = Suc (20 - Suc n)" by simp
    then show ?thesis using True by (simp add: image_step_def)
  next
    case False
    then show ?thesis by (simp add: image_step_def)
  qed
  finally show ?case .
qed

lemma forEach_index_image_step:
  "forEach_index xs image_step r =
     r\<lparr>images := images r @ map inline_image_entry (take 20 xs)\<rparr>"
  unfolding forEach_index_def using fold_image_step [of 0 xs r] by simp

lemmas forEach_steps = forEach_organic_step forEach_paa_step forEach_related_step
  forEach_video_step forEach_news_step forEach_sitelink_step forEach_index_image_step

lemma search_script_fields:
  "organicResults (search_script d) =
     List.map_filter organic_item (querySelectorAll d ''.g, .Gx5Zad'')"
  "peopleAlsoAsk (search_script d) =
     List.map_filter paa_item (querySelectorAll d ''.related-question-pair, .JolIg'')"
  "relatedSearches (search_script d) =
     List.map_filter related_item (querySelectorAll d ''.k8XOCe, .s75CSd'')"
  "images (search_script d) =
     map inline_image_entry (take 20 (querySelectorAll d ''g-img img, .ivg-i img''))"
  "videos (search_script d) = List.map_filter video_item (querySelectorAll d ''.RzdJxc, .VibNM'')"
  "news (search_script d) = List.map_filter news_item (querySelectorAll d ''.SoaBEf, .WlydOe'')"
  "siteLinks (search_script d) = List.map_filter sitelink_item (querySelectorAll d ''.usJj9c'')"
  by (simp_all add: search_script_def Let_def forEach_steps featured_step_def knowledge_step_def
        split: option.splits)

lemma knowledge_panel_facts:
  "map_option kp_facts (knowledgePanel (search_script d)) =
     map_option (\<lambda>e. List.map_filter fact_item (querySelectorAll e ''.rVusze, .wDYxhc''))
       (querySelector d ''.kp-wholepage, .knowledge-panel'')"
  by (simp add: search_script_def Let_def forEach_steps featured_step_def knowledge_step_def
        forEach_fact_step split: option.splits)

lemma images_script_fields:
  "img_images (images_script d) =
     take 50 (map image_entry_of
       (filter (\<lambda>img. 100 < naturalWidth img \<and> 100 < naturalHeight img)
          (querySelectorAll d ''img'')))"
  "totalImages (images_script d) =
     length (filter (\<lambda>img. 100 < naturalWidth img \<and> 100 < naturalHeight img)
               (querySelectorAll d ''img''))"
  by (simp_all add: images_script_def Let_def forEach_images_push)

lemma videos_script_list:
  "vid_videos (videos_script d) = List.map_filter videos_item (querySelectorAll d ''.g'')"
  by (simp add: videos_script_def Let_def forEach_videos_push)

lemma news_script_list:
  "articles (news_script d) =
     List.map_filter articles_item (querySelectorAll d ''.SoaBEf, .WlydOe, .Gx5Zad'')"
  by (simp add: news_script_def Let_def forEach_articles_push)

section \<open>Runs of the scraping functions\<close>

lemmas proc_defs = await_def call_def try_catch_def return_def throw_def evaluate_def
  evaluate_scroll_def in_page_def

lemma scroll_loop_0:
  "scroll_loop 0 = [ScrollBy, Sleep 1000, ScrollBy, Sleep 1000, ScrollBy, Sleep 1000]"
  by (simp add: scroll_loop.simps)

text \<open>Every invocation of a scraping function starts by launching a browser.\<close>

lemma scraper_launches_first:
  "scrapeGoogleSearch q w tr = (r1, t1) \<Longrightarrow> take (Suc (length tr)) t1 = tr @ [Launch]"
  "scrapeGoogleImages q w tr = (r2, t2) \<Longrightarrow> take (Suc (length tr)) t2 = tr @ [Launch]"
  "scrapeGoogleVideos q w tr = (r3, t3) \<Longrightarrow> take (Suc (length tr)) t3 = tr @ [Launch]"
  "scrapeGoogleNews q w tr = (r4, t4) \<Longrightarrow> take (Suc (length tr)) t4 = tr @ [Launch]"
  by (auto simp: scrapeGoogleSearch_def scrapeGoogleImages_def scrapeGoogleVideos_def
        scrapeGoogleNews_def proc_defs split: option.splits)

text \<open>A resolved run returns what the extraction script computes on the page's document.\<close>

lemma resolved_data:
  "scrapeGoogleSearch q w tr = (Inr e1, t1) \<Longrightarrow> data e1 = search_script (page_document w)"
  "scrapeGoogleImages q w tr = (Inr e2, t2) \<Longrightarrow> data e2 = images_script (page_document w)"
  "scrapeGoogleVideos q w tr = (Inr e3, t3) \<Longrightarrow> data e3 = videos_script (page_document w)"
  "scrapeGoogleNews q w tr = (Inr e4, t4) \<Longrightarrow> data e4 = news_script (page_document w)"
  by (auto simp: scrapeGoogleSearch_def scrapeGoogleImages_def scrapeGoogleVideos_def
        scrapeGoogleNews_def proc_defs split: option.splits)

text \<open>
  Where the browser and the page were obtained and \<open>browser.close()\<close> itself does not
  reject, every run closes the browser exactly once, whether it resolves or throws.
\<close>

lemma search_closes_once:
  "rejects w tr Launch = None \<Longrightarrow> rejects w (tr @ [Launch]) NewPage = None \<Longrightarrow>
   (\<And>h. rejects w h Close = None) \<Longrightarrow> scrapeGoogleSearch q w tr = (r, tr') \<Longrightarrow>
   count_list (new_events tr tr') Close = 1"
  by (auto simp: scrapeGoogleSearch_def proc_defs new_events_def split: option.splits)

lemma images_closes_once:
  "rejects w tr Launch = None \<Longrightarrow> rejects w (tr @ [Launch]) NewPage = None \<Longrightarrow>
   (\<And>h. rejects w h Close = None) \<Longrightarrow> scrapeGoogleImages q w tr = (r, tr') \<Longrightarrow>
   count_list (new_events tr tr') Close = 1"
  by (auto simp: scrapeGoogleImages_def proc_defs scroll_loop_0 new_events_def
        split: option.splits)

lemma videos_closes_once:
  "rejects w tr Launch = None \<Longrightarrow> rejects w (tr @ [Launch]) NewPage = None \<Longrightarrow>
   (\<And>h. rejects w h Close = None) \<Longrightarrow> scrapeGoogleVideos q w tr = (r, tr') \<Longrightarrow>
   count_list (new_events tr tr') Close = 1"
  by (auto simp: scrapeGoogleVideos_def proc_defs new_events_def split: option.splits)

lemma news_closes_once:
  "rejects w tr Launch = None \<Longrightarrow> rejects w (tr @ [Launch]) NewPage = None \<Longrightarrow>
   (\<And>h. rejects w h Close = None) \<Longrightarrow> scrapeGoogleNews q w tr = (r, tr') \<Longrightarrow>
   count_list (new_events tr tr') Close = 1"
  by (auto simp: scrapeGoogleNews_def proc_defs new_events_def split: option.splits)

section \<open>The endpoint branches of the router\<close>

lemma endpoint_missing_q:
  "\<not> truthy (searchParams_get req ''q'') \<Longrightarrow>
   endpoint req scraper wrap tr =
     (Inr \<lparr>status = 400, headers = jsonHeaders, body = ErrorBody missing_q\<rparr>, tr)"
  by (simp add: endpoint_def return_def)

lemma endpoint_catches:
  "truthy (searchParams_get req ''q'') \<Longrightarrow>
   scraper (the (searchParams_get req ''q'')) tr = (Inl e, tr') \<Longrightarrow>
   endpoint req scraper wrap tr =
     (Inr \<lparr>status = 500, headers = jsonHeaders, body = ErrorBody (message e)\<rparr>, tr')"
  by (simp add: endpoint_def return_def try_catch_def await_def)

section \<open>The claims\<close>

subsection \<open>C1: the browser is closed exactly once per invocation\<close>

text \<open>
  C1 says that every invocation of the four scraping functions closes the browser resource
  exactly once before it returns or re-raises. \<open>browser.newPage()\<close> is awaited before the
  \<open>try\<close> block: when it rejects, the browser that was launched is never closed. And the
  \<open>browser.close()\<close> of the success path is inside the \<open>try\<close> block: when it rejects, the
  \<open>catch\<close> block calls \<open>browser.close()\<close> a second time. The theorem runs the four
  functions in both worlds.
\<close>

theorem browser_leak_and_double_close:
  "scrapeGoogleSearch q newpage_fails_world [] =
     (Inl (Error ''Unable to create new page''), [Launch, NewPage])
   \<and> scrapeGoogleImages q newpage_fails_world [] =
     (Inl (Error ''Unable to create new page''), [Launch, NewPage])
   \<and> scrapeGoogleVideos q newpage_fails_world [] =
     (Inl (Error ''Unable to create new page''), [Launch, NewPage])
   \<and> scrapeGoogleNews q newpage_fails_world [] =
     (Inl (Error ''Unable to create new page''), [Launch, NewPage])
   \<and> count_list (snd (scrapeGoogleSearch q close_fails_once_world [])) Close = 2
   \<and> count_list (snd (scrapeGoogleImages q close_fails_once_world [])) Close = 2
   \<and> count_list (snd (scrapeGoogleVideos q close_fails_once_world [])) Close = 2
   \<and> count_list (snd (scrapeGoogleNews q close_fails_once_world [])) Close = 2"
proof -
  have leak:
    "scrapeGoogleSearch q newpage_fails_world [] =
       (Inl (Error ''Unable to create new page''), [Launch, NewPage])"
    "scrapeGoogleImages q newpage_fails_world [] =
       (Inl (Error ''Unable to create new page''), [Launch, NewPage])"
    "scrapeGoogleVideos q newpage_fails_world [] =
       (Inl (Error ''Unable to create new page''), [Launch, NewPage])"
    "scrapeGoogleNews q newpage_fails_world [] =
       (Inl (Error ''Unable to create new page''), [Launch, NewPage])"
    by (simp_all add: scrapeGoogleSearch_def scrapeGoogleImages_def scrapeGoogleVideos_def
          scrapeGoogleNews_def proc_defs newpage_fails_world_def)
  have twice:
    "count_list (snd (scrapeGoogleSearch q close_fails_once_world [])) Close = 2"
    "count_list (snd (scrapeGoogleImages q close_fails_once_world [])) Close = 2"
    "count_list (snd (scrapeGoogleVideos q close_fails_once_world [])) Close = 2"
    "count_list (snd (scrapeGoogleNews q close_fails_once_world [])) Close = 2"
    by (simp_all add: scrapeGoogleSearch_def scrapeGoogleImages_def scrapeGoogleVideos_def
          scrapeGoogleNews_def proc_defs close_fails_once_world_def scroll_loop_0)
  from leak twice show ?thesis by simp
qed

subsection \<open>C2: a missing or empty \<open>q\<close>\<close>

text \<open>
  C2 as stated speaks of every request to the four endpoints. The router answers an
  \<open>OPTIONS\<close> request before it looks at the path or the query: a preflight to
  \<open>/search\<close> without \<open>q\<close> gets an empty 200 response, not a 400.
\<close>

theorem preflight_without_q_is_200:
  "pathname preflight_request = ''/search''
   \<and> searchParams_get preflight_request ''q'' = None
   \<and> fetch preflight_request quiet_world [] =
       (Inr \<lparr>status = 200, headers = corsHeaders, body = NullBody\<rparr>, [])"
  by (simp add: fetch_def preflight_request_def return_def searchParams_get_def)

text \<open>
  C2, amended: for each of the four extraction endpoints, every request other than an
  \<open>OPTIONS\<close> request whose \<open>q\<close> parameter is absent or empty yields status 400 with the
  body \<open>{error: "Missing query parameter 'q'"}\<close>, and the scraping function is not invoked:
  the trace of browser calls is left as it was (an invocation would add \<open>Launch\<close>, see
  \<open>scraper_launches_first\<close>).
\<close>

theorem missing_q_yields_400:
  assumes "http_method req \<noteq> ''OPTIONS''"
    and "pathname req \<in> set [''/search'', ''/images'', ''/videos'', ''/news'']"
    and "searchParams_get req ''q'' = None \<or> searchParams_get req ''q'' = Some []"
  shows "fetch req env tr =
           (Inr \<lparr>status = 400, headers = jsonHeaders,
                 body = ErrorBody (''Missing query parameter '' @ [CHR 0x27] @ ''q'' @ [CHR 0x27])\<rparr>,
            tr)"
proof -
  from assms(3) have "\<not> truthy (searchParams_get req ''q'')"
    by (auto simp: truthy_def)
  with assms(1,2) show ?thesis
    by (auto simp: fetch_def endpoint_missing_q missing_q_def)
qed

theorem missing_q_yields_400_witness:
  "http_method empty_q_request \<noteq> ''OPTIONS''
   \<and> pathname empty_q_request \<in> set [''/search'', ''/images'', ''/videos'', ''/news'']
   \<and> searchParams_get empty_q_request ''q'' = Some []
   \<and> fetch empty_q_request quiet_world [] =
       (Inr \<lparr>status = 400, headers = jsonHeaders,
             body = ErrorBody (''Missing query parameter '' @ [CHR 0x27] @ ''q'' @ [CHR 0x27])\<rparr>,
        [])"
  using missing_q_yields_400 [of empty_q_request quiet_world "[]"]
  by (simp add: empty_q_request_def searchParams_get_def)

subsection \<open>C3: the image filter, the cap of 50 and \<open>totalImages\<close>\<close>

text \<open>
  C3: the images-mode extraction keeps exactly the image nodes whose natural width and
  height both exceed 100, returns the first 50 of them (at most) in \<open>images\<close>, and returns
  in \<open>totalImages\<close> the number of kept nodes before the cap; that number can exceed 50.
\<close>

theorem images_filter_cap_total:
  "img_images (images_script d) =
     take 50 (map image_entry_of
       (filter (\<lambda>img. 100 < naturalWidth img \<and> 100 < naturalHeight img)
          (querySelectorAll d ''img'')))
   \<and> length (img_images (images_script d)) \<le> 50
   \<and> totalImages (images_script d) =
       length (filter (\<lambda>img. 100 < naturalWidth img \<and> 100 < naturalHeight img)
                 (querySelectorAll d ''img''))
   \<and> totalImages (images_script gallery_page) = 51
   \<and> length (img_images (images_script gallery_page)) = 50"
proof -
  have "totalImages (images_script gallery_page) = 51"
    and "length (img_images (images_script gallery_page)) = 50"
    by (simp_all add: images_script_fields gallery_page_def querySelectorAll_def large_img_def)
  then show ?thesis
    by (simp add: images_script_fields)
qed

subsection \<open>C4: organic results with empty required fields\<close>

text \<open>
  C4 says that every entry of \<open>organicResults\<close> has a non-empty \<open>title\<close> and a non-empty
  \<open>url\<close>. The loop tests that the \<open>h3\<close> and \<open>a\<close> elements exist, not that the strings
  read from them are non-empty (the loops for videos, news and site links of the same
  script test the strings). A block whose \<open>h3\<close> holds only white space and whose \<open>a\<close>
  has no \<open>href\<close> is emitted with both fields empty.
\<close>

theorem organic_result_with_empty_title_and_url:
  "organicResults (search_script untitled_page) =
     [\<lparr>o_title = [], o_url = [], o_displayUrl = [], o_snippet = [], o_favicon = None\<rparr>]"
  by (simp add: search_script_fields untitled_page_def querySelectorAll_def querySelector_def
        organic_item_def untitled_block_def blank_def trim_def is_space_def
        text_of_def or_empty_def or_null_def truthy_def src_of_def)

subsection \<open>C5: the wait for a readiness marker\<close>

text \<open>
  C5 as stated covers all four modes. \<open>scrapeGoogleImages\<close> never calls
  \<open>waitForSelector\<close>: in a world where nothing fails, its calls are the navigation, the
  scrolling script, the extraction pass and the close.
\<close>

theorem images_mode_has_no_marker_wait:
  "snd (scrapeGoogleImages ''cats'' quiet_world []) =
     [Launch, NewPage, SetUserAgent userAgent,
      Goto ''https://www.google.com/search?q=cats&tbm=isch&hl=en'' ''networkidle0'' 30000,
      Evaluate, ScrollBy, Sleep 1000, ScrollBy, Sleep 1000, ScrollBy, Sleep 1000,
      Evaluate, Close]
   \<and> filter is_wait (snd (scrapeGoogleImages ''cats'' quiet_world [])) = []"
  by (simp add: scrapeGoogleImages_def proc_defs quiet_world_def encodeURIComponent_def
        unreserved_def scroll_loop_0 is_wait_def)

text \<open>
  C5, amended: in the web, videos and news modes, whenever the extraction pass runs, it
  comes directly after a wait for the mode's readiness marker (\<open>#search\<close>; \<open>.g\<close>;
  \<open>.SoaBEf, .WlydOe\<close>) with a timeout of 10 seconds, which comes directly after the
  navigation. The images mode makes no such wait: whenever its extraction pass runs, the
  scrolling script (three times a scroll and a wait of one second) has run between the
  navigation and the pass.
\<close>

theorem readiness_wait_before_extraction:
  "(scrapeGoogleSearch q w tr = (r1, t1) \<and> Evaluate \<in> set (new_events tr t1) \<longrightarrow>
      take 6 (new_events tr t1) =
        [Launch, NewPage, SetUserAgent userAgent,
         Goto (''https://www.google.com/search?q='' @ encodeURIComponent q @ ''&hl=en'')
           ''networkidle0'' 30000,
         WaitForSelector ''#search'' 10000, Evaluate])
   \<and> (scrapeGoogleVideos q w tr = (r2, t2) \<and> Evaluate \<in> set (new_events tr t2) \<longrightarrow>
      take 6 (new_events tr t2) =
        [Launch, NewPage, SetUserAgent userAgent,
         Goto (''https://www.google.com/search?q='' @ encodeURIComponent q @ ''&tbm=vid&hl=en'')
           ''networkidle0'' 30000,
         WaitForSelector ''.g'' 10000, Evaluate])
   \<and> (scrapeGoogleNews q w tr = (r3, t3) \<and> Evaluate \<in> set (new_events tr t3) \<longrightarrow>
      take 6 (new_events tr t3) =
        [Launch, NewPage, SetUserAgent userAgent,
         Goto (''https://www.google.com/search?q='' @ encodeURIComponent q @ ''&tbm=nws&hl=en'')
           ''networkidle0'' 30000,
         WaitForSelector ''.SoaBEf, .WlydOe'' 10000, Evaluate])
   \<and> (scrapeGoogleImages q w tr = (r4, t4) \<longrightarrow>
        filter is_wait (new_events tr t4) = [])
   \<and> (scrapeGoogleImages q w tr = (r4, t4) \<and> count_list (new_events tr t4) Evaluate = 2 \<longrightarrow>
      take 12 (new_events tr t4) =
        [Launch, NewPage, SetUserAgent userAgent,
         Goto (''https://www.google.com/search?q='' @ encodeURIComponent q @ ''&tbm=isch&hl=en'')
           ''networkidle0'' 30000,
         Evaluate, ScrollBy, Sleep 1000, ScrollBy, Sleep 1000, ScrollBy, Sleep 1000, Evaluate])"
proof (intro conjI impI)
  assume "scrapeGoogleSearch q w tr = (r1, t1) \<and> Evaluate \<in> set (new_events tr t1)"
  then show "take 6 (new_events tr t1) =
        [Launch, NewPage, SetUserAgent userAgent,
         Goto (''https://www.google.com/search?q='' @ encodeURIComponent q @ ''&hl=en'')
           ''networkidle0'' 30000,
         WaitForSelector ''#search'' 10000, Evaluate]"
    by (auto simp: scrapeGoogleSearch_def proc_defs new_events_def split: option.splits)
next
  assume "scrapeGoogleVideos q w tr = (r2, t2) \<and> Evaluate \<in> set (new_events tr t2)"
  then show "take 6 (new_events tr t2) =
        [Launch, NewPage, SetUserAgent userAgent,
         Goto (''https://www.google.com/search?q='' @ encodeURIComponent q @ ''&tbm=vid&hl=en'')
           ''networkidle0'' 30000,
         WaitForSelector ''.g'' 10000, Evaluate]"
    by (auto simp: scrapeGoogleVideos_def proc_defs new_events_def split: option.splits)
next
  assume "scrapeGoogleNews q w tr = (r3, t3) \<and> Evaluate \<in> set (new_events tr t3)"
  then show "take 6 (new_events tr t3) =
        [Launch, NewPage, SetUserAgent userAgent,
         Goto (''https://www.google.com/search?q='' @ encodeURIComponent q @ ''&tbm=nws&hl=en'')
           ''networkidle0'' 30000,
         WaitForSelector ''.SoaBEf, .WlydOe'' 10000, Evaluate]"
    by (auto simp: scrapeGoogleNews_def proc_defs new_events_def split: option.splits)
next
  assume "scrapeGoogleImages q w tr = (r4, t4)"
  then show "filter is_wait (new_events tr t4) = []"
    by (auto simp: scrapeGoogleImages_def proc_defs new_events_def scroll_loop_0 is_wait_def
          split: option.splits)
next
  assume "scrapeGoogleImages q w tr = (r4, t4) \<and> count_list (new_events tr t4) Evaluate = 2"
  then show "take 12 (new_events tr t4) =
        [Launch, NewPage, SetUserAgent userAgent,
         Goto (''https://www.google.com/search?q='' @ encodeURIComponent q @ ''&tbm=isch&hl=en'')
           ''networkidle0'' 30000,
         Evaluate, ScrollBy, Sleep 1000, ScrollBy, Sleep 1000, ScrollBy, Sleep 1000, Evaluate]"
    by (auto simp: scrapeGoogleImages_def proc_defs new_events_def scroll_loop_0
          split: option.splits)
qed

theorem readiness_wait_before_extraction_witness:
  "Evaluate \<in> set (new_events [] (snd (scrapeGoogleSearch ''openai'' quiet_world [])))
   \<and> take 6 (new_events [] (snd (scrapeGoogleSearch ''openai'' quiet_world []))) =
        [Launch, NewPage, SetUserAgent userAgent,
         Goto ''https://www.google.com/search?q=openai&hl=en'' ''networkidle0'' 30000,
         WaitForSelector ''#search'' 10000, Evaluate]
   \<and> Evaluate \<in> set (new_events [] (snd (scrapeGoogleVideos ''openai'' quiet_world [])))
   \<and> Evaluate \<in> set (new_events [] (snd (scrapeGoogleNews ''openai'' quiet_world [])))
   \<and> count_list (new_events [] (snd (scrapeGoogleImages ''openai'' quiet_world []))) Evaluate = 2
   \<and> filter is_wait (new_events [] (snd (scrapeGoogleImages ''openai'' quiet_world []))) = []"
proof -
  have enc: "encodeURIComponent ''openai'' = ''openai''"
    by (simp add: encodeURIComponent_def unreserved_def)
  have runs:
    "Evaluate \<in> set (new_events [] (snd (scrapeGoogleSearch ''openai'' quiet_world [])))"
    "Evaluate \<in> set (new_events [] (snd (scrapeGoogleVideos ''openai'' quiet_world [])))"
    "Evaluate \<in> set (new_events [] (snd (scrapeGoogleNews ''openai'' quiet_world [])))"
    "count_list (new_events [] (snd (scrapeGoogleImages ''openai'' quiet_world []))) Evaluate = 2"
    by (simp_all add: scrapeGoogleSearch_def scrapeGoogleVideos_def scrapeGoogleNews_def
          scrapeGoogleImages_def proc_defs quiet_world_def new_events_def scroll_loop_0)
  show ?thesis
    using runs enc
      readiness_wait_before_extraction [of "''openai''" quiet_world "[]"
        "fst (scrapeGoogleSearch ''openai'' quiet_world [])"
        "snd (scrapeGoogleSearch ''openai'' quiet_world [])"
        "fst (scrapeGoogleVideos ''openai'' quiet_world [])"
        "snd (scrapeGoogleVideos ''openai'' quiet_world [])"
        "fst (scrapeGoogleNews ''openai'' quiet_world [])"
        "snd (scrapeGoogleNews ''openai'' quiet_world [])"
        "fst (scrapeGoogleImages ''openai'' quiet_world [])"
        "snd (scrapeGoogleImages ''openai'' quiet_world [])"]
    by simp
qed

subsection \<open>C6: a thrown error becomes a 500 response with the error's message\<close>

text \<open>
  C6: for each of the four extraction endpoints, whenever the scraping function the
  router calls (the request is no preflight and has a non-empty \<open>q\<close>) throws an error,
  the router returns status 500 with the body \<open>{error: m}\<close>, \<open>m\<close> the message of the
  thrown error.
\<close>

theorem extraction_error_yields_500:
  assumes "http_method req \<noteq> ''OPTIONS''"
    and "searchParams_get req ''q'' = Some query" and "query \<noteq> []"
  shows
    "(pathname req = ''/search'' \<and> scrapeGoogleSearch query env tr = (Inl error, tr') \<longrightarrow>
        fetch req env tr =
          (Inr \<lparr>status = 500, headers = jsonHeaders, body = ErrorBody (message error)\<rparr>, tr'))
     \<and> (pathname req = ''/images'' \<and> scrapeGoogleImages query env tr = (Inl error, tr') \<longrightarrow>
        fetch req env tr =
          (Inr \<lparr>status = 500, headers = jsonHeaders, body = ErrorBody (message error)\<rparr>, tr'))
     \<and> (pathname req = ''/videos'' \<and> scrapeGoogleVideos query env tr = (Inl error, tr') \<longrightarrow>
        fetch req env tr =
          (Inr \<lparr>status = 500, headers = jsonHeaders, body = ErrorBody (message error)\<rparr>, tr'))
     \<and> (pathname req = ''/news'' \<and> scrapeGoogleNews query env tr = (Inl error, tr') \<longrightarrow>
        fetch req env tr =
          (Inr \<lparr>status = 500, headers = jsonHeaders, body = ErrorBody (message error)\<rparr>, tr'))"
proof -
  from assms(2,3) have "truthy (searchParams_get req ''q'')"
    and "the (searchParams_get req ''q'') = query"
    by (simp_all add: truthy_def)
  with assms(1) show ?thesis
    by (auto simp: fetch_def endpoint_catches)
qed

theorem extraction_error_yields_500_witness:
  "http_method openai_request \<noteq> ''OPTIONS''
   \<and> searchParams_get openai_request ''q'' = Some ''openai''
   \<and> pathname openai_request = ''/search''
   \<and> scrapeGoogleSearch ''openai'' goto_fails_world [] =
       (Inl (Error ''Navigation timeout of 30000 ms exceeded''),
        [Launch, NewPage, SetUserAgent userAgent,
         Goto ''https://www.google.com/search?q=openai&hl=en'' ''networkidle0'' 30000, Close])
   \<and> fetch openai_request goto_fails_world [] =
       (Inr \<lparr>status = 500, headers = jsonHeaders,
             body = ErrorBody ''Navigation timeout of 30000 ms exceeded''\<rparr>,
        [Launch, NewPage, SetUserAgent userAgent,
         Goto ''https://www.google.com/search?q=openai&hl=en'' ''networkidle0'' 30000, Close])"
proof -
  have run: "scrapeGoogleSearch ''openai'' goto_fails_world [] =
       (Inl (Error ''Navigation timeout of 30000 ms exceeded''),
        [Launch, NewPage, SetUserAgent userAgent,
         Goto ''https://www.google.com/search?q=openai&hl=en'' ''networkidle0'' 30000, Close])"
    by (simp add: scrapeGoogleSearch_def proc_defs goto_fails_world_def encodeURIComponent_def
          unreserved_def)
  have req: "http_method openai_request \<noteq> ''OPTIONS''"
    "searchParams_get openai_request ''q'' = Some ''openai''"
    "pathname openai_request = ''/search''"
    by (simp_all add: openai_request_def searchParams_get_def)
  show ?thesis
    using run req
      extraction_error_yields_500 [of openai_request "''openai''" goto_fails_world "[]"
        "Error ''Navigation timeout of 30000 ms exceeded''"
        "[Launch, NewPage, SetUserAgent userAgent,
          Goto ''https://www.google.com/search?q=openai&hl=en'' ''networkidle0'' 30000, Close]"]
    by simp
qed

subsection \<open>C7: every output list is in document order\<close>

text \<open>
  C7: in every mode, each output list holds, in the document order of the matched nodes,
  the object of every node that passes its loop's test: nothing is sorted, dropped as a
  duplicate or ranked, and the two caps (20 inline images, 50 images) take a prefix.
\<close>

theorem collections_in_document_order:
  "organicResults (search_script d) =
     List.map_filter organic_item (querySelectorAll d ''.g, .Gx5Zad'')
   \<and> map_option kp_facts (knowledgePanel (search_script d)) =
     map_option (\<lambda>e. List.map_filter fact_item (querySelectorAll e ''.rVusze, .wDYxhc''))
       (querySelector d ''.kp-wholepage, .knowledge-panel'')
   \<and> peopleAlsoAsk (search_script d) =
     List.map_filter paa_item (querySelectorAll d ''.related-question-pair, .JolIg'')
   \<and> relatedSearches (search_script d) =
     List.map_filter related_item (querySelectorAll d ''.k8XOCe, .s75CSd'')
   \<and> images (search_script d) =
     take 20 (map inline_image_entry (querySelectorAll d ''g-img img, .ivg-i img''))
   \<and> videos (search_script d) =
     List.map_filter video_item (querySelectorAll d ''.RzdJxc, .VibNM'')
   \<and> news (search_script d) =
     List.map_filter news_item (querySelectorAll d ''.SoaBEf, .WlydOe'')
   \<and> siteLinks (search_script d) =
     List.map_filter sitelink_item (querySelectorAll d ''.usJj9c'')
   \<and> img_images (images_script d) =
     take 50 (map image_entry_of
       (filter (\<lambda>img. 100 < naturalWidth img \<and> 100 < naturalHeight img)
          (querySelectorAll d ''img'')))
   \<and> vid_videos (videos_script d) = List.map_filter videos_item (querySelectorAll d ''.g'')
   \<and> articles (news_script d) =
     List.map_filter articles_item (querySelectorAll d ''.SoaBEf, .WlydOe, .Gx5Zad'')"
  by (simp add: search_script_fields knowledge_panel_facts images_script_fields
        videos_script_list news_script_list take_map)

subsection \<open>C8: at most 20 inline images\<close>

text \<open>
  C8: the inline \<open>images\<close> list of the web-mode extraction holds the objects of the first
  20 matched image nodes, in document order, and so at most 20 entries.
\<close>

theorem inline_images_capped_at_20:
  "images (search_script d) =
     map inline_image_entry (take 20 (querySelectorAll d ''g-img img, .ivg-i img''))
   \<and> length (images (search_script d)) \<le> 20"
  by (simp add: search_script_fields)

subsection \<open>C9: \<open>totalVideos\<close> and \<open>totalArticles\<close>\<close>

text \<open>
  C9: for every rendered page, the videos-mode result has \<open>totalVideos\<close> equal to the
  length of its \<open>videos\<close> list, and the news-mode result has \<open>totalArticles\<close> equal to the
  length of its \<open>articles\<close> list. (The data of a resolved envelope is the result of the
  script on the page's document: \<open>resolved_data\<close>.)
\<close>

theorem totals_equal_list_lengths:
  "totalVideos (videos_script d) = length (vid_videos (videos_script d))
   \<and> totalArticles (news_script d) = length (articles (news_script d))"
  by (simp add: videos_script_def news_script_def Let_def)

subsection \<open>C10: a resolved envelope has \<open>success = true\<close>\<close>

text \<open>
  C10: in every mode, whenever the scraping function resolves rather than throws, the
  envelope it returns has \<open>success\<close> equal to \<open>true\<close>.
\<close>

theorem resolved_envelope_has_success_true:
  "(scrapeGoogleSearch q w tr = (Inr e1, t1) \<longrightarrow> success e1 = True)
   \<and> (scrapeGoogleImages q w tr = (Inr e2, t2) \<longrightarrow> success e2 = True)
   \<and> (scrapeGoogleVideos q w tr = (Inr e3, t3) \<longrightarrow> success e3 = True)
   \<and> (scrapeGoogleNews q w tr = (Inr e4, t4) \<longrightarrow> success e4 = True)"
proof (intro conjI impI)
  assume "scrapeGoogleSearch q w tr = (Inr e1, t1)"
  then show "success e1 = True"
    by (auto simp: scrapeGoogleSearch_def proc_defs split: option.splits)
next
  assume "scrapeGoogleImages q w tr = (Inr e2, t2)"
  then show "success e2 = True"
    by (auto simp: scrapeGoogleImages_def proc_defs split: option.splits)
next
  assume "scrapeGoogleVideos q w tr = (Inr e3, t3)"
  then show "success e3 = True"
    by (auto simp: scrapeGoogleVideos_def proc_defs split: option.splits)
next
  assume "scrapeGoogleNews q w tr = (Inr e4, t4)"
  then show "success e4 = True"
    by (auto simp: scrapeGoogleNews_def proc_defs split: option.splits)
qed

theorem resolved_envelope_has_success_true_witness:
  "\<not> isl (fst (scrapeGoogleSearch ''openai'' quiet_world []))
   \<and> success (projr (fst (scrapeGoogleSearch ''openai'' quiet_world []))) = True
   \<and> \<not> isl (fst (scrapeGoogleImages ''openai'' quiet_world []))
   \<and> success (projr (fst (scrapeGoogleImages ''openai'' quiet_world []))) = True
   \<and> \<not> isl (fst (scrapeGoogleVideos ''openai'' quiet_world []))
   \<and> success (projr (fst (scrapeGoogleVideos ''openai'' quiet_world []))) = True
   \<and> \<not> isl (fst (scrapeGoogleNews ''openai'' quiet_world []))
   \<and> success (projr (fst (scrapeGoogleNews ''openai'' quiet_world []))) = True"
proof -
  have resolved:
    "\<not> isl (fst (scrapeGoogleSearch ''openai'' quiet_world []))"
    "\<not> isl (fst (scrapeGoogleImages ''openai'' quiet_world []))"
    "\<not> isl (fst (scrapeGoogleVideos ''openai'' quiet_world []))"
    "\<not> isl (fst (scrapeGoogleNews ''openai'' quiet_world []))"
    by (simp_all add: scrapeGoogleSearch_def scrapeGoogleImages_def scrapeGoogleVideos_def
          scrapeGoogleNews_def proc_defs quiet_world_def)
  then have runs:
    "scrapeGoogleSearch ''openai'' quiet_world [] =
       (Inr (projr (fst (scrapeGoogleSearch ''openai'' quiet_world []))),
        snd (scrapeGoogleSearch ''openai'' quiet_world []))"
    "scrapeGoogleImages ''openai'' quiet_world [] =
       (Inr (projr (fst (scrapeGoogleImages ''openai'' quiet_world []))),
        snd (scrapeGoogleImages ''openai'' quiet_world []))"
    "scrapeGoogleVideos ''openai'' quiet_world [] =
       (Inr (projr (fst (scrapeGoogleVideos ''openai'' quiet_world []))),
        snd (scrapeGoogleVideos ''openai'' quiet_world []))"
    "scrapeGoogleNews ''openai'' quiet_world [] =
       (Inr (projr (fst (scrapeGoogleNews ''openai'' quiet_world []))),
        snd (scrapeGoogleNews ''openai'' quiet_world []))"
    by (simp_all add: prod_eq_iff)
  show ?thesis
    using resolved runs
      resolved_envelope_has_success_true [of "''openai''" quiet_world "[]"
        "projr (fst (scrapeGoogleSearch ''openai'' quiet_world []))"
        "snd (scrapeGoogleSearch ''openai'' quiet_world [])"
        "projr (fst (scrapeGoogleImages ''openai'' quiet_world []))"
        "snd (scrapeGoogleImages ''openai'' quiet_world [])"
        "projr (fst (scrapeGoogleVideos ''openai'' quiet_world []))"
        "snd (scrapeGoogleVideos ''openai'' quiet_world [])"
        "projr (fst (scrapeGoogleNews ''openai'' quiet_world []))"
        "snd (scrapeGoogleNews ''openai'' quiet_world [])"]
    by simp
qed

end
